theory Spec2Isabelle
  imports Main "HOL-Library.Word"
begin

section \<open>JavaScript strings\<close>

text \<open>
  The source file \<^verbatim>\<open>create-did-docker.js\<close> holds two scripts: the non-interactive one of
  Docker mode (lines 1-118) and the interactive one (lines 119-321). Each is one function
  \<^verbatim>\<open>createDIDDocument\<close>; the definitions below follow its blocks in order, and the line
  numbers are those of the source file. Both scripts work on strings only.
  A string is modelled as an Isabelle \<^typ>\<open>string\<close>: a sequence of code units
  U+0000 .. U+00FF. On that range \<^verbatim>\<open>String.prototype.trim\<close> and
  \<^verbatim>\<open>String.prototype.toLowerCase\<close> are exactly the functions below; code units above
  U+00FF are outside the model.
\<close>

definition isWhiteSpace :: "char \<Rightarrow> bool" where
  \<comment> \<open>ECMAScript WhiteSpace and LineTerminator below U+0100: TAB, LF, VT, FF, CR, SP, NBSP.\<close>
  "isWhiteSpace c \<longleftrightarrow>
     c = CHR 0x09 \<or> c = CHR 0x0A \<or> c = CHR 0x0B \<or> c = CHR 0x0C \<or> c = CHR 0x0D \<or>
     c = CHR 0x20 \<or> c = CHR 0xA0"

definition trim :: "string \<Rightarrow> string" where
  "trim s = rev (dropWhile isWhiteSpace (rev (dropWhile isWhiteSpace s)))"

definition toLowerCase_char :: "char \<Rightarrow> char" where
  \<comment> \<open>A-Z, and the Latin-1 capitals U+00C0 .. U+00DE without the multiplication sign U+00D7.\<close>
  "toLowerCase_char c =
     (let n = (of_char c :: nat)
      in if (65 \<le> n \<and> n \<le> 90) \<or> (192 \<le> n \<and> n \<le> 222 \<and> n \<noteq> 215)
         then char_of (n + 32) else c)"

definition toLowerCase :: "string \<Rightarrow> string" where
  "toLowerCase s = map toLowerCase_char s"

fun split :: "char \<Rightarrow> string \<Rightarrow> string list" where
  \<comment> \<open>\<^verbatim>\<open>s.split(sep)\<close> for a one-character separator: empty pieces are kept, and the
      empty string splits into one empty piece.\<close>
  "split sep [] = [[]]"
| "split sep (c # cs) =
     (if c = sep then [] # split sep cs
      else (c # hd (split sep cs)) # tl (split sep cs))"

fun join :: "string \<Rightarrow> string list \<Rightarrow> string" where
  "join sep [] = []"
| "join sep [x] = x"
| "join sep (x # y # ys) = x @ sep @ join sep (y # ys)"

section \<open>JSON values, JavaScript values and the object store\<close>

text \<open>
  \<^verbatim>\<open>JSON.parse\<close> is library code: what it makes of \<^verbatim>\<open>keys/public-key.json\<close> is an input of
  the model, a JSON tree. A number is carried as the bit pattern of its IEEE 754 double and
  is never inspected. An object is its list of own properties in enumeration order.
\<close>

type_synonym js_number = "64 word"

datatype json =
    JNull
  | JBool bool
  | JNum js_number
  | JStr string
  | JArr "json list"
  | JObj "(string \<times> json) list"

text \<open>
  The parsed key is mutated (\<^verbatim>\<open>publicKeyJWK.x5u = x5uURL\<close>) and then referenced from the
  document, so objects live in a store and a JavaScript value is a primitive or a reference.
  A store is a list of cells, an address is an index. An array cell also has a list of named
  properties, since an assignment \<^verbatim>\<open>a.x5u = v\<close> to an array adds one.
\<close>

type_synonym addr = nat

datatype jsvalue = VNull | VBool bool | VNum js_number | VStr string | VRef addr

datatype cell =
    Object "(string \<times> json) list"
  | Array "json list" "(string \<times> json) list"

type_synonym heap = "cell list"

datatype exn = SyntaxError | TypeError

fun JSON_parse :: "heap \<Rightarrow> json \<Rightarrow> jsvalue \<times> heap" where
  \<comment> \<open>The value \<^verbatim>\<open>JSON.parse\<close> returns for a text denoting the given tree: a primitive, or a
      reference to a freshly allocated object or array.\<close>
  "JSON_parse h JNull = (VNull, h)"
| "JSON_parse h (JBool b) = (VBool b, h)"
| "JSON_parse h (JNum n) = (VNum n, h)"
| "JSON_parse h (JStr s) = (VStr s, h)"
| "JSON_parse h (JArr xs) = (VRef (length h), h @ [Array xs []])"
| "JSON_parse h (JObj ps) = (VRef (length h), h @ [Object ps])"

fun assign :: "string \<Rightarrow> json \<Rightarrow> (string \<times> json) list \<Rightarrow> (string \<times> json) list" where
  \<comment> \<open>Writing a named property: overwritten where it stands, otherwise added last.\<close>
  "assign k v [] = [(k, v)]"
| "assign k v ((k', v') # ps) =
     (if k' = k then (k, v) # ps else (k', v') # assign k v ps)"

fun assign_cell :: "string \<Rightarrow> json \<Rightarrow> cell \<Rightarrow> cell" where
  "assign_cell k v (Object ps) = Object (assign k v ps)"
| "assign_cell k v (Array xs ps) = Array xs (assign k v ps)"

fun set_property :: "heap \<Rightarrow> jsvalue \<Rightarrow> string \<Rightarrow> json \<Rightarrow> exn + heap" where
  \<comment> \<open>\<^verbatim>\<open>target.k = v\<close> in a CommonJS script (sloppy mode): a TypeError on \<^verbatim>\<open>null\<close>, silently
      nothing on a boolean, number or string, an in-place update of the object referred to.\<close>
  "set_property h VNull k v = Inl TypeError"
| "set_property h (VRef a) k v =
     Inr (if a < length h then h[a := assign_cell k v (h ! a)] else h)"
| "set_property h (VBool b) k v = Inr h"
| "set_property h (VNum n) k v = Inr h"
| "set_property h (VStr s) k v = Inr h"

section \<open>The DID document\<close>

record verification_method =
  vm_context :: string
  vm_id :: string
  vm_type :: string
  controller :: string
  publicKeyJwk :: jsvalue

record service_entry =
  service_id :: string
  service_type :: string
  serviceEndpoint :: string

record did_document =
  doc_context :: "string list"
  doc_id :: string
  verificationMethod :: "verification_method list"
  assertionMethod :: "string list"
  authentication :: "string list option"
  service :: "service_entry list option"

text \<open>
  The tree that the text written by \<^verbatim>\<open>JSON.stringify(didDocument, null, 2)\<close> denotes: own
  properties in insertion order, references followed into the store, absent optional
  properties left out, the named properties of an array ignored. A number that is not finite
  (\<^verbatim>\<open>JSON.parse\<close> makes \<^verbatim>\<open>Infinity\<close> of \<^verbatim>\<open>1e400\<close>) is written as \<^verbatim>\<open>null\<close>, and negative zero as
  \<^verbatim>\<open>0\<close>. The rendering of a tree as text is library code, a function of the tree.
\<close>

definition isFinite :: "js_number \<Rightarrow> bool" where
  \<comment> \<open>The eleven exponent bits of a double are all ones for the infinities and the NaNs.\<close>
  "isFinite n \<longleftrightarrow> take_bit 11 (drop_bit 52 n) \<noteq> 2047"

definition number_json :: "js_number \<Rightarrow> json" where
  "number_json n =
     (if \<not> isFinite n then JNull else if n = push_bit 63 1 then JNum 0 else JNum n)"

fun stringified :: "json \<Rightarrow> json" where
  "stringified JNull = JNull"
| "stringified (JBool b) = JBool b"
| "stringified (JNum n) = number_json n"
| "stringified (JStr s) = JStr s"
| "stringified (JArr xs) = JArr (map stringified xs)"
| "stringified (JObj ps) = JObj (map (\<lambda>p. (fst p, stringified (snd p))) ps)"

fun cell_json :: "cell \<Rightarrow> json" where
  "cell_json (Object ps) = stringified (JObj ps)"
| "cell_json (Array xs ps) = stringified (JArr xs)"

fun value_json :: "heap \<Rightarrow> jsvalue \<Rightarrow> json" where
  "value_json h VNull = JNull"
| "value_json h (VBool b) = JBool b"
| "value_json h (VNum n) = number_json n"
| "value_json h (VStr s) = JStr s"
| "value_json h (VRef a) = (if a < length h then cell_json (h ! a) else JNull)"

definition verification_method_json :: "heap \<Rightarrow> verification_method \<Rightarrow> json" where
  "verification_method_json h vm =
     JObj [(''@context'', JStr (vm_context vm)),
           (''id'', JStr (vm_id vm)),
           (''type'', JStr (vm_type vm)),
           (''controller'', JStr (controller vm)),
           (''publicKeyJwk'', value_json h (publicKeyJwk vm))]"

definition service_json :: "service_entry \<Rightarrow> json" where
  "service_json s =
     JObj [(''id'', JStr (service_id s)),
           (''type'', JStr (service_type s)),
           (''serviceEndpoint'', JStr (serviceEndpoint s))]"

definition document_json :: "heap \<Rightarrow> did_document \<Rightarrow> json" where
  "document_json h d =
     JObj ([(''@context'', JArr (map JStr (doc_context d))),
            (''id'', JStr (doc_id d)),
            (''verificationMethod'', JArr (map (verification_method_json h) (verificationMethod d))),
            (''assertionMethod'', JArr (map JStr (assertionMethod d)))]
           @ (case authentication d of None \<Rightarrow> []
              | Some a \<Rightarrow> [(''authentication'', JArr (map JStr a))])
           @ (case service d of None \<Rightarrow> []
              | Some ss \<Rightarrow> [(''service'', JArr (map service_json ss))]))"

section \<open>The environment and the outcome of a run\<close>

text \<open>
  A path is the list of segments handed to \<^verbatim>\<open>path.join\<close> after \<^verbatim>\<open>__dirname\<close>;
  \<^verbatim>\<open>path.join\<close> itself is not interpreted. The answer of each \<^verbatim>\<open>fs.existsSync\<close> call is an
  input. File-system calls are recorded in the order the script makes them and are taken to
  succeed.
\<close>

type_synonym path = "string list"

datatype key_file = KeyMissing | KeyUnparsable | KeyJson json

record disk =
  public_key :: key_file
  outputDir_exists :: bool
  wellKnownDir_exists :: bool
  pathDir_exists :: bool

datatype fs_call =
    MkdirSync path
  | MkdirSyncRecursive path
  | WriteFileSync path json
  | CopyFileSync path path

datatype exit_reason = DomainRequired | PublicKeyNotFound | Uncaught exn

record run_result =
  didId :: string
  x5uURL :: string
  publicKeyJWK :: jsvalue
  heap :: heap
  didDocument :: did_document
  fs_calls :: "fs_call list"

text \<open>
  \<open>Exit1\<close> is \<^verbatim>\<open>process.exit(1)\<close>, reached directly or through the handler of an uncaught
  exception; \<open>NoAnswer\<close> is the interactive script left at a prompt when its input ends.
  Neither has made a file-system call.
\<close>

datatype outcome =
    is_Exit1: Exit1 exit_reason
  | is_NoAnswer: NoAnswer
  | is_Done: Done (result: run_result)

section \<open>The document builder common to both scripts\<close>

definition fragmentId :: string where
  "fragmentId = ''JWK2020-RSA''"

definition buildDocument ::
  "heap \<Rightarrow> jsvalue \<Rightarrow> string \<Rightarrow> string \<Rightarrow> exn + (heap \<times> did_document)" where
  \<comment> \<open>Docker script lines 49-69, interactive script lines 199-219.\<close>
  "buildDocument h key did x5u =
     (case set_property h key ''x5u'' (JStr x5u) of
        Inl e \<Rightarrow> Inl e
      | Inr h' \<Rightarrow>
          Inr (h',
            \<lparr> doc_context = [''https://www.w3.org/ns/did/v1''],
              doc_id = did,
              verificationMethod =
                [\<lparr> vm_context = ''https://w3c-ccg.github.io/lds-jws2020/contexts/v1/'',
                   vm_id = did @ ''#'' @ fragmentId,
                   vm_type = ''JsonWebKey2020'',
                   controller = did,
                   publicKeyJwk = key \<rparr>],
              assertionMethod = [did @ ''#'' @ fragmentId],
              authentication = None,
              service = None \<rparr>))"

section \<open>The non-interactive script (Docker mode)\<close>

definition argv2_or_env :: "string option \<Rightarrow> string option \<Rightarrow> string option" where
  \<comment> \<open>\<^verbatim>\<open>process.argv[2] || process.env.DOMAIN\<close>: \<open>None\<close> is \<^verbatim>\<open>undefined\<close>, and the empty
      string is falsy too.\<close>
  "argv2_or_env argv2 env_DOMAIN =
     (case argv2 of None \<Rightarrow> env_DOMAIN
      | Some a \<Rightarrow> if a \<noteq> '''' then Some a else env_DOMAIN)"

definition createDIDDocument_docker :: "string option \<Rightarrow> string option \<Rightarrow> disk \<Rightarrow> outcome" where
  \<comment> \<open>The arguments are \<^verbatim>\<open>process.argv[2]\<close>, \<^verbatim>\<open>process.env.DOMAIN\<close> and the disk.\<close>
  "createDIDDocument_docker argv2 env_DOMAIN dsk =
     (let domain = argv2_or_env argv2 env_DOMAIN
      in case domain of
           None \<Rightarrow> Exit1 DomainRequired
         | Some domain \<Rightarrow>
             if domain = '''' \<or> trim domain = '''' then Exit1 DomainRequired
             else (case public_key dsk of
                     KeyMissing \<Rightarrow> Exit1 PublicKeyNotFound
                   | KeyUnparsable \<Rightarrow> Exit1 (Uncaught SyntaxError)
                   | KeyJson j \<Rightarrow>
                       let (key, h) = JSON_parse [] j;
                           did = ''did:web:'' @ trim domain;
                           x5u = ''https://'' @ trim domain @ ''/.well-known/x509CertificateChain.pem''
                       in (case buildDocument h key did x5u of
                            Inl e \<Rightarrow> Exit1 (Uncaught e)
                          | Inr (h', doc) \<Rightarrow>
                              Done \<lparr> didId = did, x5uURL = x5u, publicKeyJWK = key, heap = h',
                                     didDocument = doc,
                                     fs_calls =
                                       (if outputDir_exists dsk then [] else [MkdirSync [''did-document'']])
                                       @ [WriteFileSync [''did-document'', ''did.json''] (document_json h' doc)]
                                       @ (if wellKnownDir_exists dsk then [] else [MkdirSync [''.well-known'']])
                                       @ [WriteFileSync [''.well-known'', ''did.json''] (document_json h' doc),
                                          CopyFileSync [''keys'', ''x509CertificateChain.pem'']
                                                       [''.well-known'', ''x509CertificateChain.pem'']] \<rparr>)))"

section \<open>The interactive script\<close>

text \<open>
  The answers typed at the prompts are a list, consumed from the front by each
  \<^verbatim>\<open>await question(...)\<close>.
\<close>

definition ask_path :: "string \<Rightarrow> string \<Rightarrow> string list \<Rightarrow> (string \<times> string \<times> string list) option" where
  \<comment> \<open>Lines 176-187: the path component, the DID and the answers left.\<close>
  "ask_path domain hasPath answers =
     (if toLowerCase hasPath = ''y''
      then (case answers of
              [] \<Rightarrow> None
            | pathComponent # rest \<Rightarrow>
                let didPath = join '':'' (split CHR ''/'' pathComponent)
                in Some (pathComponent, ''did:web:'' @ trim domain @ '':'' @ didPath, rest))
      else Some ('''', ''did:web:'' @ trim domain, answers))"

definition x5uURL_of :: "string \<Rightarrow> string \<Rightarrow> string" where
  \<comment> \<open>Lines 191-197.\<close>
  "x5uURL_of domain pathComponent =
     (if pathComponent \<noteq> ''''
      then ''https://'' @ trim domain @ ''/'' @ pathComponent @ ''/x509CertificateChain.pem''
      else ''https://'' @ trim domain @ ''/.well-known/x509CertificateChain.pem'')"

fun ask_services ::
  "string \<Rightarrow> service_entry list \<Rightarrow> string list \<Rightarrow> service_entry list option" where
  \<comment> \<open>Lines 232-245: the loop that pushes one entry per round of three answers.\<close>
  "ask_services did acc (serviceType # endpoint # another # rest) =
     (let acc' = acc @ [\<lparr> service_id = did @ ''#'' @ toLowerCase serviceType,
                          service_type = serviceType,
                          serviceEndpoint = endpoint \<rparr>]
      in if toLowerCase another = ''y'' then ask_services did acc' rest else Some acc')"
| "ask_services did acc _ = None"

definition ask_options :: "string \<Rightarrow> did_document \<Rightarrow> string list \<Rightarrow> did_document option" where
  \<comment> \<open>Lines 221-246.\<close>
  "ask_options did doc answers =
     (case answers of
        [] \<Rightarrow> None
      | addAuth # rest \<Rightarrow>
          let doc1 = (if toLowerCase addAuth = ''y''
                      then doc\<lparr>authentication := Some [did @ ''#'' @ fragmentId]\<rparr> else doc)
          in (case rest of
                [] \<Rightarrow> None
              | addService # rest' \<Rightarrow>
                  if toLowerCase addService = ''y''
                  then (case ask_services did [] rest' of
                          None \<Rightarrow> None
                        | Some ss \<Rightarrow> Some (doc1\<lparr>service := Some ss\<rparr>))
                  else Some doc1))"

definition publish :: "disk \<Rightarrow> string \<Rightarrow> json \<Rightarrow> fs_call list" where
  \<comment> \<open>Lines 248-299.\<close>
  "publish dsk pathComponent j =
     (if outputDir_exists dsk then [] else [MkdirSync [''did-document'']])
     @ [WriteFileSync [''did-document'', ''did.json''] j]
     @ (if wellKnownDir_exists dsk then [] else [MkdirSync [''.well-known'']])
     @ (if pathComponent \<noteq> ''''
        then (if pathDir_exists dsk then [] else [MkdirSyncRecursive [pathComponent]])
             @ [WriteFileSync [pathComponent, ''did.json''] j,
                CopyFileSync [''keys'', ''x509CertificateChain.pem'']
                             [pathComponent, ''x509CertificateChain.pem'']]
        else [WriteFileSync [''.well-known'', ''did.json''] j,
              CopyFileSync [''keys'', ''x509CertificateChain.pem'']
                           [''.well-known'', ''x509CertificateChain.pem'']])"

definition createDIDDocument :: "disk \<Rightarrow> string list \<Rightarrow> outcome" where
  "createDIDDocument dsk answers =
     (case public_key dsk of
        KeyMissing \<Rightarrow> Exit1 PublicKeyNotFound
      | KeyUnparsable \<Rightarrow> Exit1 (Uncaught SyntaxError)
      | KeyJson j \<Rightarrow>
          let (key, h) = JSON_parse [] j
          in (case answers of
                [] \<Rightarrow> NoAnswer
              | domain # answers1 \<Rightarrow>
                  if domain = '''' \<or> trim domain = '''' then Exit1 DomainRequired
                  else (case answers1 of
                          [] \<Rightarrow> NoAnswer
                        | hasPath # answers2 \<Rightarrow>
                            (case ask_path domain hasPath answers2 of
                               None \<Rightarrow> NoAnswer
                             | Some (pathComponent, did, answers3) \<Rightarrow>
                                 let x5u = x5uURL_of domain pathComponent
                                 in (case buildDocument h key did x5u of
                                       Inl e \<Rightarrow> Exit1 (Uncaught e)
                                     | Inr (h', doc) \<Rightarrow>
                                         (case ask_options did doc answers3 of
                                            None \<Rightarrow> NoAnswer
                                          | Some doc' \<Rightarrow>
                                              Done \<lparr> didId = did, x5uURL = x5u,
                                                     publicKeyJWK = key, heap = h',
                                                     didDocument = doc',
                                                     fs_calls = publish dsk pathComponent
                                                                  (document_json h' doc') \<rparr>))))))"

section \<open>Notions used to state the properties\<close>

text \<open>
  The rounds of the service loop as the user types them: service type, endpoint, and the
  answer to "Add another service?". A well-formed sequence of rounds is non-empty, every
  round but the last answers yes, and the last one does not.
\<close>

fun rounds_ok :: "(string \<times> string \<times> string) list \<Rightarrow> bool" where
  "rounds_ok [] = False"
| "rounds_ok [(t, e, m)] = (toLowerCase m \<noteq> ''y'')"
| "rounds_ok ((t, e, m) # x # xs) = (toLowerCase m = ''y'' \<and> rounds_ok (x # xs))"

fun typed :: "(string \<times> string \<times> string) list \<Rightarrow> string list" where
  "typed [] = []"
| "typed ((t, e, m) # xs) = t # e # m # typed xs"

definition entry_of :: "string \<Rightarrow> string \<times> string \<times> string \<Rightarrow> service_entry" where
  "entry_of did x =
     (case x of (t, e, m) \<Rightarrow>
        \<lparr> service_id = did @ ''#'' @ toLowerCase t, service_type = t, serviceEndpoint = e \<rparr>)"

text \<open>The key and the disk of the specification's end-to-end scenarios.\<close>

definition example_key :: json where
  "example_key = JObj [(''kty'', JStr ''RSA''), (''n'', JStr ''...''), (''e'', JStr ''AQAB'')]"

definition example_disk :: disk where
  "example_disk = \<lparr> public_key = KeyJson example_key, outputDir_exists = False,
                     wellKnownDir_exists = False, pathDir_exists = False \<rparr>"

text \<open>
  The resolver as the specification words it (sections 3 and 4.1), to compare the scripts
  with: a raw path that is present and non-empty is split at \<open>/\<close> into segments; each segment
  is appended to the identifier after a colon; the publication root is \<open>.well-known\<close> for no
  segments and the segments joined with \<open>/\<close> otherwise; the certificate URL is built on the
  publication root.
\<close>

definition spec_segments :: "string option \<Rightarrow> string list" where
  "spec_segments rawPath =
     (case rawPath of None \<Rightarrow> [] | Some p \<Rightarrow> if p = '''' then [] else split CHR ''/'' p)"

definition spec_did :: "string \<Rightarrow> string list \<Rightarrow> string" where
  "spec_did domain segs = ''did:web:'' @ trim domain @ concat (map (\<lambda>s. '':'' @ s) segs)"

definition spec_publicationRoot :: "string list \<Rightarrow> string" where
  "spec_publicationRoot segs = (if segs = [] then ''.well-known'' else join ''/'' segs)"

definition spec_x5u :: "string \<Rightarrow> string list \<Rightarrow> string" where
  "spec_x5u domain segs =
     ''https://'' @ trim domain @ ''/'' @ spec_publicationRoot segs @ ''/x509CertificateChain.pem''"

text \<open>
  A malformed key as the specification words it (section 4.2: "missing required key
  fields"), with the fields of the key of its end-to-end scenario as the required ones.
\<close>

definition spec_key_malformed :: "json \<Rightarrow> bool" where
  "spec_key_malformed j =
     (case j of JObj ps \<Rightarrow> \<not> set [''kty'', ''n'', ''e''] \<subseteq> set (map fst ps) | _ \<Rightarrow> True)"

text \<open>
  The builder as the specification words it (section 4.2), to compare the scripts with. Its
  inputs are the identifier, the key, the certificate URL and the options
  \<open>includeAuthentication\<close> and \<open>services\<close>. An invocation is a run of either script; the
  options it is given are read off the answers at the option prompts (none in Docker mode):
  authentication is included when that question is answered yes, and the services are the
  type and endpoint of each round of the service loop, up to the first round that does not
  ask for another.
\<close>

datatype invocation = Docker "string option" "string option" | Interactive "string list"

fun run :: "disk \<Rightarrow> invocation \<Rightarrow> outcome" where
  "run dsk (Docker argv2 env_DOMAIN) = createDIDDocument_docker argv2 env_DOMAIN dsk"
| "run dsk (Interactive answers) = createDIDDocument dsk answers"

record options =
  includeAuthentication :: bool
  services :: "(string \<times> string) list"

fun services_typed :: "string list \<Rightarrow> (string \<times> string) list" where
  "services_typed (t # e # m # rest) =
     (t, e) # (if toLowerCase m = ''y'' then services_typed rest else [])"
| "services_typed _ = []"

definition options_typed :: "string list \<Rightarrow> options" where
  "options_typed answers =
     (case answers of
        addAuth # addService # sv \<Rightarrow>
          \<lparr> includeAuthentication = (toLowerCase addAuth = ''y''),
            services = (if toLowerCase addService = ''y'' then services_typed sv else []) \<rparr>
      | _ \<Rightarrow> \<lparr> includeAuthentication = False, services = [] \<rparr>)"

fun options_given :: "invocation \<Rightarrow> options" where
  "options_given (Docker argv2 env_DOMAIN) = \<lparr> includeAuthentication = False, services = [] \<rparr>"
| "options_given (Interactive (d # hasPath # rest)) =
     options_typed (if toLowerCase hasPath = ''y'' then tl rest else rest)"
| "options_given (Interactive _) = \<lparr> includeAuthentication = False, services = [] \<rparr>"

text \<open>
  Steps 2 to 5 of the specification's builder: the single verification method with the
  fixed fragment, \<open>assertionMethod\<close>, \<open>authentication\<close> when asked for, and one service
  entry per service given, in order.
\<close>

definition spec_build :: "string \<Rightarrow> jsvalue \<Rightarrow> options \<Rightarrow> did_document" where
  "spec_build did key opts =
     \<lparr> doc_context = [''https://www.w3.org/ns/did/v1''],
       doc_id = did,
       verificationMethod =
         [\<lparr> vm_context = ''https://w3c-ccg.github.io/lds-jws2020/contexts/v1/'',
            vm_id = did @ ''#JWK2020-RSA'',
            vm_type = ''JsonWebKey2020'',
            controller = did,
            publicKeyJwk = key \<rparr>],
       assertionMethod = [did @ ''#JWK2020-RSA''],
       authentication =
         (if includeAuthentication opts then Some [did @ ''#JWK2020-RSA''] else None),
       service =
         (if services opts = [] then None
          else Some (map (\<lambda>(t, e). \<lparr> service_id = did @ ''#'' @ toLowerCase t,
                                      service_type = t, serviceEndpoint = e \<rparr>)
                         (services opts))) \<rparr>"

section \<open>Strings: splitting, joining, trimming\<close>

lemma split_not_Nil: "split sep s \<noteq> []"
  by (induction s) auto

lemma join_Cons: "ys \<noteq> [] \<Longrightarrow> join sep (x # ys) = x @ sep @ join sep ys"
  by (cases ys) auto

lemma join_split: "join [sep] (split sep s) = s"
proof (induction s)
  case Nil
  show ?case by simp
next
  case (Cons c cs)
  obtain w ws where sp: "split sep cs = w # ws"
    using split_not_Nil [of sep cs] by (cases "split sep cs") auto
  show ?case
  proof (cases "c = sep")
    case True
    then show ?thesis using Cons by (simp add: join_Cons split_not_Nil)
  next
    case False
    then show ?thesis using Cons sp by (cases ws) auto
  qed
qed

lemma join_colon_split_slash:
  "join '':'' (split CHR ''/'' p) = map (\<lambda>c. if c = CHR ''/'' then CHR '':'' else c) p"
proof (induction p)
  case Nil
  show ?case by simp
next
  case (Cons c cs)
  obtain w ws where sp: "split CHR ''/'' cs = w # ws"
    using split_not_Nil [of "CHR ''/''" cs] by (cases "split CHR ''/'' cs") auto
  show ?case
  proof (cases "c = CHR ''/''")
    case True
    then show ?thesis using Cons by (simp add: join_Cons split_not_Nil)
  next
    case False
    then show ?thesis using Cons sp by (cases ws) auto
  qed
qed

lemma colon_join:
  "segs \<noteq> [] \<Longrightarrow> '':'' @ join '':'' segs = concat (map (\<lambda>s. '':'' @ s) segs)"
proof (induction segs)
  case Nil
  then show ?case by simp
next
  case (Cons s segs)
  then show ?case by (cases segs) auto
qed

lemma length_split: "length (split sep s) = Suc (length (filter (\<lambda>c. c = sep) s))"
  by (induction s) (auto simp: split_not_Nil)

lemma trim_Nil: "trim [] = []"
  by (simp add: trim_def)

lemma trim_example: "trim ''example.com'' = ''example.com''"
  by (simp add: trim_def isWhiteSpace_def)

lemma trim_spaces: "trim '' example.com '' = ''example.com''"
  by (simp add: trim_def isWhiteSpace_def)

lemma trim_blank: "trim ''  '' = ''''"
  by (simp add: trim_def isWhiteSpace_def)

lemma toLowerCase_y: "toLowerCase ''y'' = ''y''"
  by code_simp

lemma toLowerCase_n: "toLowerCase ''n'' = ''n''"
  by code_simp

lemma toLowerCase_Foo: "toLowerCase ''Foo'' = ''foo''"
  by code_simp

lemma toLowerCase_foo: "toLowerCase ''foo'' = ''foo''"
  by code_simp

lemma toLowerCase_examples:
  "toLowerCase ''LinkedDomains'' = ''linkeddomains''"
  "toLowerCase ''VerifiableCredentialService'' = ''verifiablecredentialservice''"
  by code_simp+

section \<open>Property assignment\<close>

lemma map_of_assign: "map_of (assign k v ps) = (map_of ps)(k \<mapsto> v)"
  by (induction ps) (auto simp: fun_eq_iff)

lemma assign_idem: "assign k v (assign k v ps) = assign k v ps"
  by (induction ps) auto

section \<open>What a completed run went through\<close>

lemma createDIDDocument_DoneD:
  assumes "createDIDDocument dsk answers = Done r"
  obtains j d hasPath as2 p as3 doc where
    "public_key dsk = KeyJson j" "answers = d # hasPath # as2" "trim d \<noteq> ''''"
    "ask_path d hasPath as2 = Some (p, didId r, as3)"
    "x5uURL r = x5uURL_of d p"
    "buildDocument (snd (JSON_parse [] j)) (fst (JSON_parse [] j)) (didId r) (x5uURL r)
       = Inr (heap r, doc)"
    "ask_options (didId r) doc as3 = Some (didDocument r)"
    "publicKeyJWK r = fst (JSON_parse [] j)"
    "fs_calls r = publish dsk p (document_json (heap r) (didDocument r))"
  using assms unfolding createDIDDocument_def
  by (auto simp: Let_def
      split: key_file.splits list.splits option.splits sum.splits prod.splits if_splits)

lemma createDIDDocument_docker_DoneD:
  assumes "createDIDDocument_docker argv2 env_DOMAIN dsk = Done r"
  obtains j domain where
    "argv2_or_env argv2 env_DOMAIN = Some domain" "trim domain \<noteq> ''''"
    "public_key dsk = KeyJson j"
    "didId r = ''did:web:'' @ trim domain"
    "x5uURL r = ''https://'' @ trim domain @ ''/.well-known/x509CertificateChain.pem''"
    "buildDocument (snd (JSON_parse [] j)) (fst (JSON_parse [] j)) (didId r) (x5uURL r)
       = Inr (heap r, didDocument r)"
    "publicKeyJWK r = fst (JSON_parse [] j)"
  using assms unfolding createDIDDocument_docker_def
  by (auto simp: Let_def split: key_file.splits option.splits sum.splits prod.splits if_splits)

lemma buildDocument_InrD:
  assumes "buildDocument h key did x5u = Inr (h', doc)"
  shows "set_property h key ''x5u'' (JStr x5u) = Inr h'"
    and "doc_id doc = did"
    and "assertionMethod doc = [did @ ''#JWK2020-RSA'']"
    and "map vm_id (verificationMethod doc) = [did @ ''#JWK2020-RSA'']"
    and "map controller (verificationMethod doc) = [did]"
    and "map publicKeyJwk (verificationMethod doc) = [key]"
    and "authentication doc = None"
    and "service doc = None"
  using assms unfolding buildDocument_def fragmentId_def
  by (auto split: sum.splits)

lemma buildDocument_accepts:
  "j \<noteq> JNull \<Longrightarrow>
   \<exists>h' doc. buildDocument (snd (JSON_parse [] j)) (fst (JSON_parse [] j)) did x5u = Inr (h', doc)"
  by (cases j) (simp_all add: buildDocument_def)

lemma createDIDDocument_docker_completes:
  assumes "argv2_or_env argv2 env_DOMAIN = Some domain" and "trim domain \<noteq> ''''"
    and "public_key dsk = KeyJson j" and "j \<noteq> JNull"
  shows "is_Done (createDIDDocument_docker argv2 env_DOMAIN dsk)"
  using assms
  by (cases j) (auto simp: createDIDDocument_docker_def Let_def buildDocument_def trim_Nil)

lemma ask_options_SomeD:
  assumes "ask_options did doc answers = Some doc'"
  shows "doc_context doc' = doc_context doc"
    and "doc_id doc' = doc_id doc"
    and "verificationMethod doc' = verificationMethod doc"
    and "assertionMethod doc' = assertionMethod doc"
  using assms unfolding ask_options_def
  by (auto simp: Let_def split: list.splits option.splits if_splits)

lemma ask_options_declined:
  assumes "ask_options did doc (addAuth # addService # sv) = Some doc'"
    and "toLowerCase addService \<noteq> ''y''"
  shows "service doc' = service doc"
  using assms unfolding ask_options_def
  by (auto simp: Let_def split: if_splits)

lemma ask_options_accepted:
  assumes "ask_options did doc (addAuth # addService # sv) = Some doc'"
    and "toLowerCase addService = ''y''"
  shows "\<exists>ss. ask_services did [] sv = Some ss \<and> service doc' = Some ss"
  using assms unfolding ask_options_def
  by (auto simp: Let_def split: if_splits option.splits)

lemma publish_hosting:
  "WriteFileSync [if p \<noteq> '''' then p else ''.well-known'', ''did.json''] j
     \<in> set (publish dsk p j) \<and>
   CopyFileSync [''keys'', ''x509CertificateChain.pem'']
     [if p \<noteq> '''' then p else ''.well-known'', ''x509CertificateChain.pem'']
     \<in> set (publish dsk p j)"
  by (simp add: publish_def)

section \<open>The service loop\<close>

lemma ask_services_rounds:
  "rounds_ok rounds \<Longrightarrow>
   ask_services did acc (typed rounds @ rest) = Some (acc @ map (entry_of did) rounds)"
proof (induction rounds arbitrary: acc rule: rounds_ok.induct)
  case 1
  then show ?case by simp
next
  case (2 t e m)
  then show ?case by (simp add: entry_of_def)
next
  case (3 t e m x xs)
  then show ?case by (simp add: entry_of_def)
qed

lemma ask_services_complete:
  "ask_services did acc sv = Some ss \<Longrightarrow>
   \<exists>rounds rest. rounds_ok rounds \<and> sv = typed rounds @ rest \<and>
      ss = acc @ map (entry_of did) rounds"
proof (induction did acc sv arbitrary: ss rule: ask_services.induct)
  case (1 did acc serviceType endpoint another rest)
  show ?case
  proof (cases "toLowerCase another = ''y''")
    case True
    let ?acc' = "acc @ [entry_of did (serviceType, endpoint, another)]"
    from 1 True have "ask_services did ?acc' rest = Some ss"
      by (simp add: entry_of_def)
    with 1 True obtain rounds rest' where
      r: "rounds_ok rounds" "rest = typed rounds @ rest'" "ss = ?acc' @ map (entry_of did) rounds"
      by (fastforce simp: entry_of_def)
    from r(1) have "rounds_ok ((serviceType, endpoint, another) # rounds)"
      using True by (cases rounds) auto
    with r show ?thesis
      by (intro exI [of _ "(serviceType, endpoint, another) # rounds"] exI [of _ rest']) simp
  next
    case False
    with 1 have "ss = acc @ [entry_of did (serviceType, endpoint, another)]"
      by (simp add: entry_of_def)
    with False show ?thesis
      by (intro exI [of _ "[(serviceType, endpoint, another)]"] exI [of _ rest]) simp
  qed
qed simp_all

lemma not_distinct_map_nth:
  assumes "i < k" and "k < length xs" and "f (xs ! i) = f (xs ! k)"
  shows "\<not> distinct (map f xs)"
proof
  assume "distinct (map f xs)"
  moreover have "map f xs ! i = map f xs ! k"
    using assms by simp
  ultimately have "i = k"
    using assms(1,2) by (simp add: nth_eq_iff_index_eq del: nth_map)
  with assms(1) show False by simp
qed

section \<open>Runs of the end-to-end scenarios\<close>

lemma example_run_no_path:
  "is_Done (createDIDDocument example_disk [''example.com'', ''n'', ''n'', ''n''])"
  by code_simp

lemma example_run_options:
  "is_Done (createDIDDocument example_disk
     [''example.com'', ''y'', ''tenants/acme'', ''y'', ''y'', ''LinkedDomains'', ''https://example.com'', ''n''])"
  by code_simp

lemma example_run_two_services:
  "is_Done (createDIDDocument example_disk
     [''example.com'', ''n'', ''n'', ''y'', ''LinkedDomains'', ''https://example.com'', ''y'',
      ''VerifiableCredentialService'', ''https://example.com/vc'', ''n''])"
  by code_simp

lemma example_didId_two_services:
  "didId (result (createDIDDocument example_disk
     [''example.com'', ''n'', ''n'', ''y'', ''LinkedDomains'', ''https://example.com'', ''y'',
      ''VerifiableCredentialService'', ''https://example.com/vc'', ''n''])) = ''did:web:example.com''"
  by code_simp

lemma example_run_docker:
  "is_Done (createDIDDocument_docker (Some ''example.com'') None example_disk)"
  by code_simp

lemma example_run_docker_env:
  "is_Done (createDIDDocument_docker None (Some '' example.com '') example_disk)"
  by code_simp

lemma ask_services_typed:
  "ask_services did acc sv = Some ss \<Longrightarrow>
   services_typed sv \<noteq> [] \<and>
   ss = acc @ map (\<lambda>(t, e). \<lparr> service_id = did @ ''#'' @ toLowerCase t,
                              service_type = t, serviceEndpoint = e \<rparr>) (services_typed sv)"
proof (induction did acc sv arbitrary: ss rule: ask_services.induct)
  case (1 did acc serviceType endpoint another rest)
  then show ?case
    by (cases "toLowerCase another = ''y''") (auto simp: Let_def)
qed simp_all

lemma buildDocument_spec_build:
  assumes "buildDocument h key did x5u = Inr (h', doc)"
  shows "doc = spec_build did key \<lparr> includeAuthentication = False, services = [] \<rparr>"
  using assms unfolding buildDocument_def spec_build_def fragmentId_def
  by (auto split: sum.splits)

lemma ask_options_spec_build:
  assumes "ask_options did (spec_build did key \<lparr> includeAuthentication = False, services = [] \<rparr>)
             answers = Some doc'"
  shows "doc' = spec_build did key (options_typed answers)"
proof -
  from assms obtain addAuth addService sv where a: "answers = addAuth # addService # sv"
    by (auto simp: ask_options_def Let_def split: list.splits)
  show ?thesis
  proof (cases "toLowerCase addService = ''y''")
    case True
    with assms a obtain ss where
      ss: "ask_services did [] sv = Some ss"
      by (auto simp: ask_options_def Let_def split: option.splits)
    from ask_services_typed [OF ss] assms a True ss show ?thesis
      by (auto simp: ask_options_def Let_def options_typed_def spec_build_def fragmentId_def)
  next
    case False
    with assms a show ?thesis
      by (auto simp: ask_options_def Let_def options_typed_def spec_build_def fragmentId_def)
  qed
qed

lemma document_closed_form:
  assumes "run dsk call = Done r"
  shows "\<exists>j. public_key dsk = KeyJson j \<and>
             publicKeyJWK r = fst (JSON_parse [] j) \<and>
             set_property (snd (JSON_parse [] j)) (fst (JSON_parse [] j)) ''x5u'' (JStr (x5uURL r))
               = Inr (heap r) \<and>
             didDocument r = spec_build (didId r) (publicKeyJWK r) (options_given call)"
proof (cases call)
  case (Docker argv2 env_DOMAIN)
  with assms have "createDIDDocument_docker argv2 env_DOMAIN dsk = Done r" by simp
  then obtain j where
    key: "public_key dsk = KeyJson j" "publicKeyJWK r = fst (JSON_parse [] j)" and
    bd: "buildDocument (snd (JSON_parse [] j)) (fst (JSON_parse [] j)) (didId r) (x5uURL r)
           = Inr (heap r, didDocument r)"
    by (elim createDIDDocument_docker_DoneD)
  show ?thesis
    using key buildDocument_InrD(1) [OF bd] buildDocument_spec_build [OF bd] Docker by simp
next
  case (Interactive answers)
  with assms have "createDIDDocument dsk answers = Done r" by simp
  then obtain j d hasPath as2 p as3 doc where
    key: "public_key dsk = KeyJson j" "publicKeyJWK r = fst (JSON_parse [] j)" and
    ans: "answers = d # hasPath # as2" and
    ap: "ask_path d hasPath as2 = Some (p, didId r, as3)" and
    bd: "buildDocument (snd (JSON_parse [] j)) (fst (JSON_parse [] j)) (didId r) (x5uURL r)
           = Inr (heap r, doc)" and
    ao: "ask_options (didId r) doc as3 = Some (didDocument r)"
    by (elim createDIDDocument_DoneD)
  from ap have as3: "as3 = (if toLowerCase hasPath = ''y'' then tl as2 else as2)"
    by (auto simp: ask_path_def split: if_splits list.splits)
  have "didDocument r = spec_build (didId r) (fst (JSON_parse [] j)) (options_typed as3)"
    using ask_options_spec_build ao buildDocument_spec_build [OF bd] by simp
  then show ?thesis
    using key buildDocument_InrD(1) [OF bd] Interactive ans as3 by simp
qed

lemma createDIDDocument_docker_fs_calls:
  assumes "createDIDDocument_docker argv2 env_DOMAIN dsk = Done r"
  shows "fs_calls r =
      (if outputDir_exists dsk then [] else [MkdirSync [''did-document'']])
      @ [WriteFileSync [''did-document'', ''did.json''] (document_json (heap r) (didDocument r))]
      @ (if wellKnownDir_exists dsk then [] else [MkdirSync [''.well-known'']])
      @ [WriteFileSync [''.well-known'', ''did.json''] (document_json (heap r) (didDocument r)),
         CopyFileSync [''keys'', ''x509CertificateChain.pem'']
                      [''.well-known'', ''x509CertificateChain.pem'']]"
  using assms unfolding createDIDDocument_docker_def
  by (auto simp: Let_def split: key_file.splits option.splits sum.splits prod.splits if_splits)

lemma written_contents:
  assumes "run dsk call = Done r"
  shows "[J. WriteFileSync f J \<leftarrow> fs_calls r]
           = [document_json (heap r) (didDocument r), document_json (heap r) (didDocument r)]"
proof (cases call)
  case (Docker argv2 env_DOMAIN)
  with assms have "createDIDDocument_docker argv2 env_DOMAIN dsk = Done r" by simp
  from createDIDDocument_docker_fs_calls [OF this] show ?thesis by simp
next
  case (Interactive answers)
  with assms have "createDIDDocument dsk answers = Done r" by simp
  then obtain p where "fs_calls r = publish dsk p (document_json (heap r) (didDocument r))"
    by (elim createDIDDocument_DoneD)
  then show ?thesis by (simp add: publish_def)
qed

lemma example_runs_for_C9:
  "is_Done (run example_disk (Docker None (Some '' example.com '')))"
  "is_Done (run (example_disk\<lparr>outputDir_exists := True, wellKnownDir_exists := True\<rparr>)
              (Interactive [''example.com'', ''n'', ''n'', ''n'']))"
  "didId (result (run example_disk (Docker None (Some '' example.com ''))))
     = ''did:web:example.com''"
  "didId (result (run (example_disk\<lparr>outputDir_exists := True, wellKnownDir_exists := True\<rparr>)
              (Interactive [''example.com'', ''n'', ''n'', ''n''])))
     = ''did:web:example.com''"
  "x5uURL (result (run example_disk (Docker None (Some '' example.com ''))))
     = ''https://example.com/.well-known/x509CertificateChain.pem''"
  "x5uURL (result (run (example_disk\<lparr>outputDir_exists := True, wellKnownDir_exists := True\<rparr>)
              (Interactive [''example.com'', ''n'', ''n'', ''n''])))
     = ''https://example.com/.well-known/x509CertificateChain.pem''"
  by code_simp+

lemma example_run_empty_path:
  "is_Done (createDIDDocument example_disk ['' example.com '', ''Y'', '''', ''n'', ''n''])"
  by code_simp

lemma toLowerCase_Y: "toLowerCase ''Y'' = ''y''"
  by code_simp

section \<open>The identifier, the publication root and the certificate URL\<close>

text \<open>
  In a completed interactive run the identifier, the certificate URL and the directory that
  receives \<open>did.json\<close> and the certificate chain are those of the specification's resolver,
  as long as the raw path is not present and empty. The raw path is absent when the path
  question is declined, and is the answer to the path prompt otherwise.
\<close>

lemma resolver_consistent:
  assumes "createDIDDocument dsk (d # hasPath # as2) = Done r"
    and "rawPath = (if toLowerCase hasPath = ''y'' then Some (hd as2) else None)"
    and "rawPath \<noteq> Some ''''"
  shows "didId r = spec_did d (spec_segments rawPath) \<and>
         x5uURL r = spec_x5u d (spec_segments rawPath) \<and>
         WriteFileSync [spec_publicationRoot (spec_segments rawPath), ''did.json'']
           (document_json (heap r) (didDocument r)) \<in> set (fs_calls r) \<and>
         CopyFileSync [''keys'', ''x509CertificateChain.pem'']
           [spec_publicationRoot (spec_segments rawPath), ''x509CertificateChain.pem'']
           \<in> set (fs_calls r)"
proof -
  from assms(1) obtain p as3 where
    ap: "ask_path d hasPath as2 = Some (p, didId r, as3)" and
    x5: "x5uURL r = x5uURL_of d p" and
    fs: "fs_calls r = publish dsk p (document_json (heap r) (didDocument r))"
    by (elim createDIDDocument_DoneD) auto
  show ?thesis
  proof (cases "toLowerCase hasPath = ''y''")
    case False
    with ap have "p = ''''" "didId r = ''did:web:'' @ trim d"
      by (auto simp: ask_path_def)
    moreover from False assms(2) have "spec_segments rawPath = []"
      by (simp add: spec_segments_def)
    ultimately show ?thesis
      using x5 fs publish_hosting [of p "document_json (heap r) (didDocument r)" dsk]
      by (simp add: spec_did_def spec_x5u_def spec_publicationRoot_def x5uURL_of_def)
  next
    case True
    with ap obtain rest where as2: "as2 = p # rest"
      and did: "didId r = ''did:web:'' @ trim d @ '':'' @ join '':'' (split CHR ''/'' p)"
      by (auto simp: ask_path_def split: list.splits)
    from True assms(2,3) as2 have p: "p \<noteq> ''''" and raw: "rawPath = Some p"
      by auto
    have segs: "spec_segments rawPath = split CHR ''/'' p"
      using p raw by (simp add: spec_segments_def)
    have root: "spec_publicationRoot (spec_segments rawPath) = p"
      using join_split [of "CHR ''/''" p] by (simp add: segs spec_publicationRoot_def split_not_Nil)
    have "didId r = spec_did d (spec_segments rawPath)"
      using did colon_join [OF split_not_Nil, of "CHR ''/''" p] by (simp add: segs spec_did_def)
    moreover have "x5uURL r = spec_x5u d (spec_segments rawPath)"
      using x5 p by (simp add: spec_x5u_def root x5uURL_of_def)
    ultimately show ?thesis
      using fs p publish_hosting [of p "document_json (heap r) (didDocument r)" dsk]
      by (simp add: root)
  qed
qed

text \<open>
  C1. The identifier, the publication location and the certificate URL are to stay mutually
  consistent for every domain and every optional path, an empty path counting as no path.
  The interactive script does not keep them so when the path question is accepted and the
  path typed is empty: the identifier is built under the test of the yes/no answer and gets
  a trailing colon, \<open>did:web:example.com:\<close>, where the resolver of the specification gives
  \<open>did:web:example.com\<close>; the certificate URL and the publication directory are chosen under
  the test of the path itself, and are those of \<open>.well-known\<close>.
\<close>

theorem C1_empty_path_divergence:
  "is_Done (createDIDDocument example_disk [''example.com'', ''y'', '''', ''n'', ''n'']) \<and>
   didId (result (createDIDDocument example_disk [''example.com'', ''y'', '''', ''n'', ''n'']))
     = ''did:web:example.com:'' \<and>
   spec_did ''example.com'' (spec_segments (Some '''')) = ''did:web:example.com'' \<and>
   didId (result (createDIDDocument example_disk [''example.com'', ''y'', '''', ''n'', ''n'']))
     \<noteq> spec_did ''example.com'' (spec_segments (Some '''')) \<and>
   x5uURL (result (createDIDDocument example_disk [''example.com'', ''y'', '''', ''n'', ''n'']))
     = ''https://example.com/.well-known/x509CertificateChain.pem'' \<and>
   fs_calls (result (createDIDDocument example_disk [''example.com'', ''y'', '''', ''n'', ''n'']))
     = [MkdirSync [''did-document''],
        WriteFileSync [''did-document'', ''did.json'']
          (document_json
             (heap (result (createDIDDocument example_disk
                              [''example.com'', ''y'', '''', ''n'', ''n''])))
             (didDocument (result (createDIDDocument example_disk
                              [''example.com'', ''y'', '''', ''n'', ''n''])))),
        MkdirSync [''.well-known''],
        WriteFileSync [''.well-known'', ''did.json'']
          (document_json
             (heap (result (createDIDDocument example_disk
                              [''example.com'', ''y'', '''', ''n'', ''n''])))
             (didDocument (result (createDIDDocument example_disk
                              [''example.com'', ''y'', '''', ''n'', ''n''])))),
        CopyFileSync [''keys'', ''x509CertificateChain.pem'']
                     [''.well-known'', ''x509CertificateChain.pem'']]"
  by code_simp

text \<open>
  The two halves of C2 on the inputs where the scripts meet them. A completed interactive
  run whose path question was declined has the identifier \<open>did:web:\<close> followed by the trimmed
  domain, and writes \<open>did.json\<close> and the certificate chain under \<open>.well-known\<close>; a completed
  run with the path \<open>a/b\<close> has that identifier followed by \<open>:a:b\<close>, and writes both files
  under \<open>a/b\<close>. A completed Docker-mode run has the identifier without a path and writes
  under \<open>.well-known\<close>.
\<close>

lemma path_declined_or_a_b:
  assumes "createDIDDocument dsk (d # hasPath # answers) = Done r"
  shows "(toLowerCase hasPath \<noteq> ''y'' \<longrightarrow>
            didId r = ''did:web:'' @ trim d \<and>
            WriteFileSync [''.well-known'', ''did.json'']
              (document_json (heap r) (didDocument r)) \<in> set (fs_calls r) \<and>
            CopyFileSync [''keys'', ''x509CertificateChain.pem'']
              [''.well-known'', ''x509CertificateChain.pem''] \<in> set (fs_calls r)) \<and>
         (toLowerCase hasPath = ''y'' \<and> answers = ''a/b'' # rest \<longrightarrow>
            didId r = ''did:web:'' @ trim d @ '':a:b'' \<and>
            WriteFileSync [''a/b'', ''did.json'']
              (document_json (heap r) (didDocument r)) \<in> set (fs_calls r) \<and>
            CopyFileSync [''keys'', ''x509CertificateChain.pem'']
              [''a/b'', ''x509CertificateChain.pem''] \<in> set (fs_calls r))"
proof -
  from assms obtain p as3 where
    ap: "ask_path d hasPath answers = Some (p, didId r, as3)" and
    fs: "fs_calls r = publish dsk p (document_json (heap r) (didDocument r))"
    by (elim createDIDDocument_DoneD) auto
  show ?thesis
  proof (cases "toLowerCase hasPath = ''y''")
    case False
    with ap have "p = ''''" "didId r = ''did:web:'' @ trim d"
      by (auto simp: ask_path_def)
    with False fs publish_hosting [of p "document_json (heap r) (didDocument r)" dsk]
    show ?thesis by simp
  next
    case True
    show ?thesis
    proof (cases "answers = ''a/b'' # rest")
      case False
      with True show ?thesis by simp
    next
      case ab: True
      with True ap have "p = ''a/b''" "didId r = ''did:web:'' @ trim d @ '':a:b''"
        by (auto simp: ask_path_def)
      with True fs publish_hosting [of p "document_json (heap r) (didDocument r)" dsk]
      show ?thesis by simp
    qed
  qed
qed

lemma createDIDDocument_docker_publication:
  assumes "createDIDDocument_docker argv2 env_DOMAIN dsk = Done r"
  shows "\<exists>domain. argv2_or_env argv2 env_DOMAIN = Some domain \<and>
           didId r = ''did:web:'' @ trim domain \<and>
           WriteFileSync [''.well-known'', ''did.json'']
             (document_json (heap r) (didDocument r)) \<in> set (fs_calls r) \<and>
           CopyFileSync [''keys'', ''x509CertificateChain.pem'']
             [''.well-known'', ''x509CertificateChain.pem''] \<in> set (fs_calls r)"
proof -
  from assms obtain domain where
    "argv2_or_env argv2 env_DOMAIN = Some domain" "didId r = ''did:web:'' @ trim domain"
    by (elim createDIDDocument_docker_DoneD)
  then show ?thesis
    using createDIDDocument_docker_fs_calls [OF assms] by simp
qed

text \<open>
  C2. With no path the identifier is \<open>did:web:\<close> followed by the trimmed domain and the
  publication root is \<open>.well-known\<close>. The interactive script has no path when
  \<open>pathComponent\<close> is empty, and that is also the case when the path question is accepted and
  nothing is typed at the path prompt. There the script does not meet the claim: the
  publication root and the certificate URL are those of \<open>.well-known\<close>, but the identifier
  has a trailing colon, for every domain. It is the slip of C1: the identifier is built
  under the test of the yes/no answer, the root under the test of the path.
\<close>

theorem C2_empty_path_trailing_colon:
  assumes "createDIDDocument dsk (d # hasPath # '''' # answers) = Done r"
    and "toLowerCase hasPath = ''y''"
  shows "didId r = ''did:web:'' @ trim d @ '':'' \<and>
         didId r \<noteq> ''did:web:'' @ trim d \<and>
         x5uURL r = ''https://'' @ trim d @ ''/.well-known/x509CertificateChain.pem'' \<and>
         WriteFileSync [''.well-known'', ''did.json'']
           (document_json (heap r) (didDocument r)) \<in> set (fs_calls r) \<and>
         CopyFileSync [''keys'', ''x509CertificateChain.pem'']
           [''.well-known'', ''x509CertificateChain.pem''] \<in> set (fs_calls r)"
proof -
  from assms(1) obtain p as3 where
    ap: "ask_path d hasPath ('''' # answers) = Some (p, didId r, as3)" and
    x5: "x5uURL r = x5uURL_of d p" and
    fs: "fs_calls r = publish dsk p (document_json (heap r) (didDocument r))"
    by (elim createDIDDocument_DoneD) auto
  from ap assms(2) have p: "p = ''''" and did: "didId r = ''did:web:'' @ trim d @ '':''"
    by (auto simp: ask_path_def)
  show ?thesis
    using p did x5 fs publish_hosting [of p "document_json (heap r) (didDocument r)" dsk]
    by (simp add: x5uURL_of_def)
qed

theorem C2_witness:
  "didId (result (createDIDDocument example_disk ['' example.com '', ''Y'', '''', ''n'', ''n'']))
     = ''did:web:example.com:'' \<and>
   x5uURL (result (createDIDDocument example_disk ['' example.com '', ''Y'', '''', ''n'', ''n'']))
     = ''https://example.com/.well-known/x509CertificateChain.pem'' \<and>
   CopyFileSync [''keys'', ''x509CertificateChain.pem'']
     [''.well-known'', ''x509CertificateChain.pem'']
     \<in> set (fs_calls (result (createDIDDocument example_disk
                ['' example.com '', ''Y'', '''', ''n'', ''n''])))"
proof -
  let ?run = "createDIDDocument example_disk ['' example.com '', ''Y'', '''', ''n'', ''n'']"
  have "?run = Done (result ?run)"
    using example_run_empty_path by simp
  from C2_empty_path_trailing_colon [OF this toLowerCase_Y] show ?thesis
    by (simp add: trim_spaces)
qed

text \<open>
  C3. Empty path segments are kept. For a domain that is not empty after trimming, a key file
  that parses to anything but \<open>null\<close> and any path, the interactive run completes, and its
  identifier has one colon-prefixed piece per piece of the path split at \<open>/\<close>, the empty
  pieces included: the path \<open>a/\<close> gives the suffix \<open>:a:\<close>.
\<close>

theorem C3_empty_segments_kept:
  assumes "trim d \<noteq> ''''" and "public_key dsk = KeyJson j" and "j \<noteq> JNull"
    and "toLowerCase hasPath = ''y''" and "toLowerCase addService \<noteq> ''y''"
  shows "\<exists>r. createDIDDocument dsk [d, hasPath, p, addAuth, addService] = Done r \<and>
           didId r = ''did:web:'' @ trim d @ concat (map (\<lambda>s. '':'' @ s) (split CHR ''/'' p)) \<and>
           (p = ''a/'' \<longrightarrow> didId r = ''did:web:'' @ trim d @ '':a:'')"
proof -
  let ?did = "''did:web:'' @ trim d @ '':'' @ join '':'' (split CHR ''/'' p)"
  have ap: "ask_path d hasPath [p, addAuth, addService] = Some (p, ?did, [addAuth, addService])"
    using assms(4) by (simp add: ask_path_def)
  obtain h' doc where
    bd: "buildDocument (snd (JSON_parse [] j)) (fst (JSON_parse [] j)) ?did (x5uURL_of d p)
           = Inr (h', doc)"
    using buildDocument_accepts [OF assms(3)] by blast
  obtain doc' where ao: "ask_options ?did doc [addAuth, addService] = Some doc'"
    using assms(5) by (simp add: ask_options_def Let_def)
  have run: "createDIDDocument dsk [d, hasPath, p, addAuth, addService] =
      Done \<lparr> didId = ?did, x5uURL = x5uURL_of d p, publicKeyJWK = fst (JSON_parse [] j),
             heap = h', didDocument = doc',
             fs_calls = publish dsk p (document_json h' doc') \<rparr>"
    using assms(1,2) ap bd ao
    by (cases "JSON_parse [] j") (auto simp: createDIDDocument_def Let_def trim_Nil)
  have segs: "'':'' @ join '':'' (split CHR ''/'' p)
                = concat (map (\<lambda>s. '':'' @ s) (split CHR ''/'' p))"
    by (rule colon_join) (rule split_not_Nil)
  show ?thesis
    using run segs by auto
qed

theorem C3_witness:
  "\<exists>r. createDIDDocument example_disk [''example.com'', ''y'', ''a/'', ''n'', ''n''] = Done r \<and>
       didId r = ''did:web:example.com:a:''"
  using C3_empty_segments_kept [of "''example.com''" example_disk example_key "''y''" "''n''"
          "''a/''" "''n''"]
  by (simp add: trim_example toLowerCase_y toLowerCase_n example_disk_def example_key_def)

section \<open>The key object\<close>

text \<open>
  C4 as amended. The builder sets \<open>x5u\<close> on the key object itself: after the build the
  object that was handed in has the property \<open>x5u\<close> with the certificate URL (overwritten
  where it stood, or added last) and its other properties as before, and the \<open>publicKeyJwk\<close>
  of the verification method is a reference to that same object. Building a second time
  with the same arguments leaves the store and the document as the first build made them.
\<close>

theorem C4_key_annotated_in_place:
  assumes "a < length h" and "h ! a = Object ps"
  shows "\<exists>doc. buildDocument h (VRef a) did x5u
                  = Inr (h[a := Object (assign ''x5u'' (JStr x5u) ps)], doc) \<and>
               map publicKeyJwk (verificationMethod doc) = [VRef a] \<and>
               map_of (assign ''x5u'' (JStr x5u) ps) = (map_of ps)(''x5u'' \<mapsto> JStr x5u) \<and>
               buildDocument (h[a := Object (assign ''x5u'' (JStr x5u) ps)]) (VRef a) did x5u
                  = Inr (h[a := Object (assign ''x5u'' (JStr x5u) ps)], doc)"
  using assms by (simp add: buildDocument_def map_of_assign assign_idem)

theorem C4_witness:
  "\<exists>doc. buildDocument [Object [(''kty'', JStr ''RSA'')]] (VRef 0) ''did:web:example.com''
             ''https://example.com/.well-known/x509CertificateChain.pem''
           = Inr ([Object [(''kty'', JStr ''RSA''),
                           (''x5u'', JStr ''https://example.com/.well-known/x509CertificateChain.pem'')]],
                  doc) \<and>
         map publicKeyJwk (verificationMethod doc) = [VRef 0]"
  using C4_key_annotated_in_place [of 0 "[Object [(''kty'', JStr ''RSA'')]]"
          "[(''kty'', JStr ''RSA'')]" "''did:web:example.com''"
          "''https://example.com/.well-known/x509CertificateChain.pem''"]
  by auto

text \<open>
  C4 as stated fails. The key object is not left unchanged: the object parsed from the
  example key file has three properties before the Docker-mode run and a fourth, \<open>x5u\<close>,
  after it.
\<close>

theorem C4_counterexample:
  "is_Done (createDIDDocument_docker (Some ''example.com'') None example_disk) \<and>
   JSON_parse [] example_key
     = (VRef 0, [Object [(''kty'', JStr ''RSA''), (''n'', JStr ''...''), (''e'', JStr ''AQAB'')]]) \<and>
   publicKeyJWK (result (createDIDDocument_docker (Some ''example.com'') None example_disk))
     = VRef 0 \<and>
   heap (result (createDIDDocument_docker (Some ''example.com'') None example_disk))
     = [Object [(''kty'', JStr ''RSA''), (''n'', JStr ''...''), (''e'', JStr ''AQAB''),
                (''x5u'', JStr ''https://example.com/.well-known/x509CertificateChain.pem'')]] \<and>
   heap (result (createDIDDocument_docker (Some ''example.com'') None example_disk))
     \<noteq> snd (JSON_parse [] example_key)"
  by code_simp

section \<open>The sections of the document\<close>

text \<open>
  C5 as amended. The scripts make no check for duplicate service ids. When two of the
  service types typed are equal after lower-casing, the interactive run still completes,
  with or without a path: the document has one entry per round, the two entries have the
  same \<open>id\<close>, the JSON tree of the document ends with the \<open>service\<close> array of these entries,
  and that tree is written to \<open>did-document/did.json\<close> and to \<open>did.json\<close> under the
  publication root, where the certificate chain is copied too.
\<close>

theorem C5_duplicate_ids_accepted:
  assumes "trim d \<noteq> ''''" and "public_key dsk = KeyJson j" and "j \<noteq> JNull"
    and "toLowerCase addService = ''y''"
    and "rounds_ok rounds"
    and "i < k" and "k < length rounds"
    and "toLowerCase (fst (rounds ! i)) = toLowerCase (fst (rounds ! k))"
  shows "\<exists>r. createDIDDocument dsk
                (d # hasPath # (if toLowerCase hasPath = ''y'' then [p] else [])
                   @ addAuth # addService # typed rounds) = Done r \<and>
           service (didDocument r) = Some (map (entry_of (didId r)) rounds) \<and>
           service_id (entry_of (didId r) (rounds ! i))
             = service_id (entry_of (didId r) (rounds ! k)) \<and>
           \<not> distinct (map service_id (map (entry_of (didId r)) rounds)) \<and>
           (\<exists>ps. document_json (heap r) (didDocument r) =
                   JObj (ps @ [(''service'',
                                JArr (map service_json (map (entry_of (didId r)) rounds)))])) \<and>
           WriteFileSync [''did-document'', ''did.json'']
             (document_json (heap r) (didDocument r)) \<in> set (fs_calls r) \<and>
           WriteFileSync [if toLowerCase hasPath = ''y'' \<and> p \<noteq> '''' then p else ''.well-known'',
                          ''did.json'']
             (document_json (heap r) (didDocument r)) \<in> set (fs_calls r) \<and>
           CopyFileSync [''keys'', ''x509CertificateChain.pem'']
             [if toLowerCase hasPath = ''y'' \<and> p \<noteq> '''' then p else ''.well-known'',
              ''x509CertificateChain.pem''] \<in> set (fs_calls r)"
proof -
  let ?as2 = "(if toLowerCase hasPath = ''y'' then [p] else [])
                @ addAuth # addService # typed rounds"
  let ?as3 = "addAuth # addService # typed rounds"
  define pc where "pc = (if toLowerCase hasPath = ''y'' then p else '''')"
  define did where "did = (if toLowerCase hasPath = ''y''
      then ''did:web:'' @ trim d @ '':'' @ join '':'' (split CHR ''/'' p)
      else ''did:web:'' @ trim d)"
  have ap: "ask_path d hasPath ?as2 = Some (pc, did, ?as3)"
    by (simp add: ask_path_def pc_def did_def)
  obtain h' doc where
    bd: "buildDocument (snd (JSON_parse [] j)) (fst (JSON_parse [] j)) did (x5uURL_of d pc)
           = Inr (h', doc)"
    using buildDocument_accepts [OF assms(3)] by blast
  have sv: "ask_services did [] (typed rounds) = Some (map (entry_of did) rounds)"
    using ask_services_rounds [OF assms(5), of did "[]" "[]"] by simp
  obtain doc' where
    ao: "ask_options did doc ?as3 = Some doc'" and
    ss: "service doc' = Some (map (entry_of did) rounds)"
    using assms(4) sv by (simp add: ask_options_def Let_def)
  let ?J = "document_json h' doc'"
  have run: "createDIDDocument dsk (d # hasPath # ?as2) =
      Done \<lparr> didId = did, x5uURL = x5uURL_of d pc, publicKeyJWK = fst (JSON_parse [] j),
             heap = h', didDocument = doc', fs_calls = publish dsk pc ?J \<rparr>"
    using assms(1,2) ap bd ao
    by (cases "JSON_parse [] j") (auto simp: createDIDDocument_def Let_def trim_Nil)
  have same: "service_id (entry_of did (rounds ! i)) = service_id (entry_of did (rounds ! k))"
    using assms(8) by (cases "rounds ! i"; cases "rounds ! k") (simp add: entry_of_def)
  have nd: "\<not> distinct (map service_id (map (entry_of did) rounds))"
    unfolding map_map
    by (rule not_distinct_map_nth [OF assms(6,7)]) (use same in simp)
  have js: "\<exists>ps. ?J = JObj (ps @ [(''service'', JArr (map service_json (map (entry_of did) rounds)))])"
    using ss by (simp add: document_json_def)
  have root: "(if pc \<noteq> '''' then pc else ''.well-known'')
      = (if toLowerCase hasPath = ''y'' \<and> p \<noteq> '''' then p else ''.well-known'')"
    by (simp add: pc_def)
  have w1: "WriteFileSync [''did-document'', ''did.json''] ?J \<in> set (publish dsk pc ?J)"
    by (simp add: publish_def)
  have w2: "WriteFileSync [if toLowerCase hasPath = ''y'' \<and> p \<noteq> '''' then p else ''.well-known'',
                          ''did.json''] ?J \<in> set (publish dsk pc ?J)"
      "CopyFileSync [''keys'', ''x509CertificateChain.pem'']
         [if toLowerCase hasPath = ''y'' \<and> p \<noteq> '''' then p else ''.well-known'',
          ''x509CertificateChain.pem''] \<in> set (publish dsk pc ?J)"
    using publish_hosting [of pc ?J dsk] unfolding root by simp_all
  show ?thesis
    using run ss same nd js w1 w2 by simp
qed

theorem C5_witness:
  "\<exists>r. createDIDDocument example_disk
          [''example.com'', ''y'', ''tenants/acme'', ''n'', ''y'', ''Foo'', ''https://a.example'',
           ''y'', ''foo'', ''https://b.example'', ''n''] = Done r \<and>
       service (didDocument r) =
         Some [\<lparr> service_id = didId r @ ''#foo'', service_type = ''Foo'',
                  serviceEndpoint = ''https://a.example'' \<rparr>,
               \<lparr> service_id = didId r @ ''#foo'', service_type = ''foo'',
                  serviceEndpoint = ''https://b.example'' \<rparr>] \<and>
       WriteFileSync [''tenants/acme'', ''did.json'']
         (document_json (heap r) (didDocument r)) \<in> set (fs_calls r)"
  using C5_duplicate_ids_accepted [of "''example.com''" example_disk example_key "''y''"
          "[(''Foo'', ''https://a.example'', ''y''), (''foo'', ''https://b.example'', ''n'')]"
          0 1 "''y''" "''tenants/acme''" "''n''"]
  by (auto simp: trim_example toLowerCase_y toLowerCase_n toLowerCase_Foo toLowerCase_foo
        example_disk_def example_key_def entry_of_def)

text \<open>
  C5 as stated fails. Such a build does not fail: with the service types \<open>Foo\<close> and
  \<open>foo\<close> the run completes, and both entries have the id \<open>did:web:example.com#foo\<close>.
\<close>

theorem C5_counterexample:
  "is_Done (createDIDDocument example_disk
      [''example.com'', ''n'', ''n'', ''y'', ''Foo'', ''https://a.example'', ''y'',
       ''foo'', ''https://b.example'', ''n'']) \<and>
   service (didDocument (result (createDIDDocument example_disk
      [''example.com'', ''n'', ''n'', ''y'', ''Foo'', ''https://a.example'', ''y'',
       ''foo'', ''https://b.example'', ''n''])))
     = Some [\<lparr> service_id = ''did:web:example.com#foo'', service_type = ''Foo'',
                serviceEndpoint = ''https://a.example'' \<rparr>,
             \<lparr> service_id = ''did:web:example.com#foo'', service_type = ''foo'',
                serviceEndpoint = ''https://b.example'' \<rparr>]"
  by code_simp

text \<open>
  C6. In every completed run, of either script and whatever was answered, \<open>assertionMethod\<close>
  has exactly one element, the identifier followed by \<open>#JWK2020-RSA\<close>, which is the \<open>id\<close> of the
  only verification method.
\<close>

theorem C6_assertionMethod:
  assumes "createDIDDocument dsk answers = Done r \<or>
           createDIDDocument_docker argv2 env_DOMAIN dsk = Done r"
  shows "assertionMethod (didDocument r) = [didId r @ ''#JWK2020-RSA''] \<and>
         map vm_id (verificationMethod (didDocument r)) = [didId r @ ''#JWK2020-RSA''] \<and>
         doc_id (didDocument r) = didId r"
  using assms
proof
  assume "createDIDDocument dsk answers = Done r"
  then obtain doc as3 h where
    bd: "buildDocument h (publicKeyJWK r) (didId r) (x5uURL r) = Inr (heap r, doc)" and
    ao: "ask_options (didId r) doc as3 = Some (didDocument r)"
    by (elim createDIDDocument_DoneD) auto
  show ?thesis
    using buildDocument_InrD(2,3,4) [OF bd] ask_options_SomeD(2,3,4) [OF ao] by simp
next
  assume "createDIDDocument_docker argv2 env_DOMAIN dsk = Done r"
  then obtain h where
    bd: "buildDocument h (publicKeyJWK r) (didId r) (x5uURL r) = Inr (heap r, didDocument r)"
    by (elim createDIDDocument_docker_DoneD) auto
  show ?thesis
    using buildDocument_InrD(2,3,4) [OF bd] by simp
qed

theorem C6_witness:
  "assertionMethod (didDocument (result (createDIDDocument example_disk
     [''example.com'', ''y'', ''tenants/acme'', ''y'', ''y'', ''LinkedDomains'',
      ''https://example.com'', ''n''])))
     = [''did:web:example.com:tenants:acme#JWK2020-RSA''] \<and>
   assertionMethod (didDocument (result (createDIDDocument_docker (Some ''example.com'') None
     example_disk)))
     = [''did:web:example.com#JWK2020-RSA'']"
proof -
  let ?r1 = "result (createDIDDocument example_disk
     [''example.com'', ''y'', ''tenants/acme'', ''y'', ''y'', ''LinkedDomains'',
      ''https://example.com'', ''n''])"
  let ?r2 = "result (createDIDDocument_docker (Some ''example.com'') None example_disk)"
  have d1: "didId ?r1 = ''did:web:example.com:tenants:acme''" by code_simp
  have d2: "didId ?r2 = ''did:web:example.com''" by code_simp
  have "createDIDDocument example_disk
     [''example.com'', ''y'', ''tenants/acme'', ''y'', ''y'', ''LinkedDomains'',
      ''https://example.com'', ''n''] = Done ?r1"
    using example_run_options by simp
  from C6_assertionMethod [OF disjI1, OF this] d1
  have a1: "assertionMethod (didDocument ?r1) = [''did:web:example.com:tenants:acme#JWK2020-RSA'']"
    by simp
  have "createDIDDocument_docker (Some ''example.com'') None example_disk = Done ?r2"
    using example_run_docker by simp
  from C6_assertionMethod [OF disjI2, OF this] d2
  have a2: "assertionMethod (didDocument ?r2) = [''did:web:example.com#JWK2020-RSA'']"
    by simp
  from a1 a2 show ?thesis by simp
qed

text \<open>
  C7. In a completed interactive run, the document has no \<open>service\<close> property when the
  service question was declined. When it was accepted, the answers that follow are a
  well-formed sequence of rounds, and \<open>service\<close> has one entry per round, in the order typed:
  the \<open>id\<close> is the identifier, \<open>#\<close> and the lower-cased type, the type and the endpoint are
  copied as typed.
\<close>

theorem C7_service_entries:
  assumes "createDIDDocument dsk
             (d # hasPath # (if toLowerCase hasPath = ''y'' then [p] else [])
                @ addAuth # addService # sv) = Done r"
  shows "(toLowerCase addService \<noteq> ''y'' \<longrightarrow> service (didDocument r) = None) \<and>
         (toLowerCase addService = ''y'' \<longrightarrow>
            (\<exists>rounds rest. rounds_ok rounds \<and> sv = typed rounds @ rest)) \<and>
         (toLowerCase addService = ''y'' \<and> rounds_ok rounds \<and> sv = typed rounds @ rest \<longrightarrow>
            service (didDocument r) =
              Some (map (\<lambda>(t, e, m). \<lparr> service_id = didId r @ ''#'' @ toLowerCase t,
                                       service_type = t, serviceEndpoint = e \<rparr>) rounds))"
proof -
  let ?as2 = "(if toLowerCase hasPath = ''y'' then [p] else []) @ addAuth # addService # sv"
  from assms obtain p' as3 doc h where
    ap: "ask_path d hasPath ?as2 = Some (p', didId r, as3)" and
    bd: "buildDocument h (publicKeyJWK r) (didId r) (x5uURL r) = Inr (heap r, doc)" and
    ao: "ask_options (didId r) doc as3 = Some (didDocument r)"
    by (elim createDIDDocument_DoneD) auto
  from ap have as3: "as3 = addAuth # addService # sv"
    by (auto simp: ask_path_def split: if_splits)
  have none: "service doc = None"
    by (rule buildDocument_InrD(8) [OF bd])
  have declined: "service (didDocument r) = None" if "toLowerCase addService \<noteq> ''y''"
    using ask_options_declined [OF ao [unfolded as3] that] none by simp
  have accepted: "\<exists>ss. ask_services (didId r) [] sv = Some ss \<and> service (didDocument r) = Some ss"
    if "toLowerCase addService = ''y''"
    using ask_options_accepted [OF ao [unfolded as3] that] .
  have shape: "\<exists>rounds rest. rounds_ok rounds \<and> sv = typed rounds @ rest"
    if "toLowerCase addService = ''y''"
    using accepted [OF that] ask_services_complete [of "didId r" "[]" sv] by blast
  have entries: "service (didDocument r) = Some (map (entry_of (didId r)) rounds)"
    if "toLowerCase addService = ''y''" "rounds_ok rounds" "sv = typed rounds @ rest"
    using accepted [OF that(1)] ask_services_rounds [OF that(2), of "didId r" "[]" rest] that(3)
    by auto
  have eo: "entry_of (didId r) = (\<lambda>(t, e, m). \<lparr> service_id = didId r @ ''#'' @ toLowerCase t,
                                       service_type = t, serviceEndpoint = e \<rparr>)"
    by (auto simp: entry_of_def fun_eq_iff)
  show ?thesis
    using declined shape entries unfolding eo by blast
qed

theorem C7_witness:
  "service (didDocument (result (createDIDDocument example_disk
     [''example.com'', ''n'', ''n'', ''y'', ''LinkedDomains'', ''https://example.com'', ''y'',
      ''VerifiableCredentialService'', ''https://example.com/vc'', ''n''])))
   = Some [\<lparr> service_id = ''did:web:example.com#linkeddomains'',
              service_type = ''LinkedDomains'', serviceEndpoint = ''https://example.com'' \<rparr>,
           \<lparr> service_id = ''did:web:example.com#verifiablecredentialservice'',
              service_type = ''VerifiableCredentialService'',
              serviceEndpoint = ''https://example.com/vc'' \<rparr>] \<and>
   service (didDocument (result (createDIDDocument example_disk
     [''example.com'', ''n'', ''n'', ''n'']))) = None"
proof -
  let ?sv = "[''LinkedDomains'', ''https://example.com'', ''y'',
              ''VerifiableCredentialService'', ''https://example.com/vc'', ''n'']"
  let ?run = "createDIDDocument example_disk ([''example.com'', ''n'', ''n'', ''y''] @ ?sv)"
  have "?run = Done (result ?run)"
    using example_run_two_services by simp
  then have 1: "createDIDDocument example_disk
      (''example.com'' # ''n'' # (if toLowerCase ''n'' = ''y'' then [''''] else [])
         @ ''n'' # ''y'' # ?sv) = Done (result ?run)"
    by (simp add: toLowerCase_n)
  have a: "service (didDocument (result ?run)) =
      Some (map (\<lambda>(t, e, m). \<lparr> service_id = didId (result ?run) @ ''#'' @ toLowerCase t,
                                service_type = t, serviceEndpoint = e \<rparr>)
             [(''LinkedDomains'', ''https://example.com'', ''y''),
              (''VerifiableCredentialService'', ''https://example.com/vc'', ''n'')])"
    using C7_service_entries [OF 1, of "[(''LinkedDomains'', ''https://example.com'', ''y''),
              (''VerifiableCredentialService'', ''https://example.com/vc'', ''n'')]" "[]"]
    by (simp add: toLowerCase_y toLowerCase_n)
  let ?run0 = "createDIDDocument example_disk [''example.com'', ''n'', ''n'', ''n'']"
  have "?run0 = Done (result ?run0)"
    using example_run_no_path by simp
  then have 2: "createDIDDocument example_disk
      (''example.com'' # ''n'' # (if toLowerCase ''n'' = ''y'' then [''''] else [])
         @ ''n'' # ''n'' # []) = Done (result ?run0)"
    by (simp add: toLowerCase_n)
  have b: "service (didDocument (result ?run0)) = None"
    using C7_service_entries [OF 2] by (simp add: toLowerCase_n)
  from a b show ?thesis
    using example_didId_two_services by (simp add: toLowerCase_examples)
qed

section \<open>Failures\<close>

text \<open>
  C8 as amended. A run ends in \<^verbatim>\<open>process.exit(1)\<close>, with no document and no file-system
  call, exactly in these cases. Docker mode: no domain is given, the domain is empty after
  trimming, the key file is missing, the key file is not JSON, or the key file holds
  \<open>null\<close>. Interactive script: the key file is missing or is not JSON, the domain typed is
  empty after trimming, or the key file holds \<open>null\<close> and the domain and path prompts have
  been answered. The fields of the key are not checked.
\<close>

theorem C8_exit_conditions:
  "(is_Exit1 (createDIDDocument_docker argv2 env_DOMAIN dsk) \<longleftrightarrow>
      argv2_or_env argv2 env_DOMAIN = None \<or>
      (\<exists>domain. argv2_or_env argv2 env_DOMAIN = Some domain \<and> trim domain = '''') \<or>
      public_key dsk = KeyMissing \<or> public_key dsk = KeyUnparsable \<or>
      public_key dsk = KeyJson JNull) \<and>
   (is_Exit1 (createDIDDocument dsk answers) \<longleftrightarrow>
      public_key dsk = KeyMissing \<or> public_key dsk = KeyUnparsable \<or>
      (\<exists>d rest. answers = d # rest \<and> trim d = '''') \<or>
      (public_key dsk = KeyJson JNull \<and>
       (\<exists>d hasPath rest. answers = d # hasPath # rest \<and> ask_path d hasPath rest \<noteq> None)))"
proof (intro conjI)
  show "is_Exit1 (createDIDDocument_docker argv2 env_DOMAIN dsk) \<longleftrightarrow>
      argv2_or_env argv2 env_DOMAIN = None \<or>
      (\<exists>domain. argv2_or_env argv2 env_DOMAIN = Some domain \<and> trim domain = '''') \<or>
      public_key dsk = KeyMissing \<or> public_key dsk = KeyUnparsable \<or>
      public_key dsk = KeyJson JNull"
  proof (cases "public_key dsk")
    case (KeyJson j)
    then show ?thesis
      by (cases j)
         (auto simp: createDIDDocument_docker_def Let_def buildDocument_def trim_Nil
               split: option.splits)
  qed (auto simp: createDIDDocument_docker_def Let_def trim_Nil split: option.splits)
next
  show "is_Exit1 (createDIDDocument dsk answers) \<longleftrightarrow>
      public_key dsk = KeyMissing \<or> public_key dsk = KeyUnparsable \<or>
      (\<exists>d rest. answers = d # rest \<and> trim d = '''') \<or>
      (public_key dsk = KeyJson JNull \<and>
       (\<exists>d hasPath rest. answers = d # hasPath # rest \<and> ask_path d hasPath rest \<noteq> None))"
  proof (cases "public_key dsk")
    case (KeyJson j)
    then show ?thesis
      by (cases j)
         (auto simp: createDIDDocument_def Let_def buildDocument_def trim_Nil
               split: option.splits list.splits)
  qed (auto simp: createDIDDocument_def)
qed

theorem C8_witness:
  "is_Exit1 (createDIDDocument_docker (Some ''  '') None example_disk) \<and>
   is_Exit1 (createDIDDocument_docker (Some '''') None example_disk) \<and>
   is_Exit1 (createDIDDocument_docker (Some ''example.com'') None
               (example_disk\<lparr>public_key := KeyMissing\<rparr>)) \<and>
   \<not> is_Exit1 (createDIDDocument_docker (Some ''example.com'') None
               (example_disk\<lparr>public_key := KeyJson (JObj [])\<rparr>)) \<and>
   is_Exit1 (createDIDDocument example_disk [''  '']) \<and>
   \<not> is_Exit1 (createDIDDocument (example_disk\<lparr>public_key := KeyJson (JObj [])\<rparr>)
                 [''example.com'', ''n'', ''n'', ''n''])"
  using C8_exit_conditions [of "Some ''  ''" None example_disk "[''  '']"]
        C8_exit_conditions [of "Some ''''" None example_disk "[]"]
        C8_exit_conditions [of "Some ''example.com''" None
          "example_disk\<lparr>public_key := KeyMissing\<rparr>" "[]"]
        C8_exit_conditions [of "Some ''example.com''" None
          "example_disk\<lparr>public_key := KeyJson (JObj [])\<rparr>" "[''example.com'', ''n'', ''n'', ''n'']"]
  by (simp add: argv2_or_env_def trim_blank trim_example example_disk_def example_key_def)

text \<open>
  C8 as stated fails. A key with malformed required fields does not make the build fail:
  a key file holding the empty object, which has none of the required fields, is
  accepted by both scripts.
\<close>

theorem C8_counterexample:
  "spec_key_malformed (JObj []) \<and>
   is_Done (createDIDDocument_docker (Some ''example.com'') None
              (example_disk\<lparr>public_key := KeyJson (JObj [])\<rparr>)) \<and>
   is_Done (createDIDDocument (example_disk\<lparr>public_key := KeyJson (JObj [])\<rparr>)
              [''example.com'', ''n'', ''n'', ''n''])"
  by code_simp

section \<open>Determinism\<close>

text \<open>
  C9. The build is deterministic in its four inputs. The document of a completed run, of
  either script, is the specification's builder applied to the identifier, the key and the
  options given, and its store is the parsed key with \<open>x5u\<close> set to the certificate URL:
  nothing else enters it, whatever the domain and path were typed as and whatever is on the
  disk. So any two completed runs with the same identifier, the same key file, the same
  certificate URL and the same options have equal documents in equal stores, and write the
  same JSON trees to their files; the text of a file is \<^verbatim>\<open>JSON.stringify\<close>'s rendering of its
  tree.
\<close>

theorem C9_deterministic:
  assumes "run dsk1 call1 = Done r1" and "run dsk2 call2 = Done r2"
    and "didId r1 = didId r2"
    and "public_key dsk1 = public_key dsk2"
    and "x5uURL r1 = x5uURL r2"
    and "options_given call1 = options_given call2"
  shows "didDocument r1 = spec_build (didId r1) (publicKeyJWK r1) (options_given call1) \<and>
         didDocument r1 = didDocument r2 \<and> heap r1 = heap r2 \<and>
         document_json (heap r1) (didDocument r1) = document_json (heap r2) (didDocument r2) \<and>
         [J. WriteFileSync f J \<leftarrow> fs_calls r1] = [J. WriteFileSync f J \<leftarrow> fs_calls r2]"
proof -
  from document_closed_form [OF assms(1)] obtain j1 where
    k1: "public_key dsk1 = KeyJson j1" "publicKeyJWK r1 = fst (JSON_parse [] j1)" and
    h1: "set_property (snd (JSON_parse [] j1)) (fst (JSON_parse [] j1)) ''x5u''
           (JStr (x5uURL r1)) = Inr (heap r1)" and
    d1: "didDocument r1 = spec_build (didId r1) (publicKeyJWK r1) (options_given call1)"
    by blast
  from document_closed_form [OF assms(2)] obtain j2 where
    k2: "public_key dsk2 = KeyJson j2" "publicKeyJWK r2 = fst (JSON_parse [] j2)" and
    h2: "set_property (snd (JSON_parse [] j2)) (fst (JSON_parse [] j2)) ''x5u''
           (JStr (x5uURL r2)) = Inr (heap r2)" and
    d2: "didDocument r2 = spec_build (didId r2) (publicKeyJWK r2) (options_given call2)"
    by blast
  from k1(1) k2(1) assms(4) have j: "j1 = j2" by simp
  have doc: "didDocument r1 = didDocument r2"
    using d1 d2 k1(2) k2(2) j assms(3,6) by simp
  have hp: "heap r1 = heap r2"
    using h1 h2 j assms(5) by simp
  show ?thesis
    using d1 doc hp written_contents [OF assms(1)] written_contents [OF assms(2)] by simp
qed

theorem C9_witness:
  "didDocument (result (run example_disk (Docker None (Some '' example.com ''))))
     = didDocument (result
         (run (example_disk\<lparr>outputDir_exists := True, wellKnownDir_exists := True\<rparr>)
              (Interactive [''example.com'', ''n'', ''n'', ''n'']))) \<and>
   document_json
       (heap (result (run example_disk (Docker None (Some '' example.com '')))))
       (didDocument (result (run example_disk (Docker None (Some '' example.com '')))))
     = document_json
       (heap (result
         (run (example_disk\<lparr>outputDir_exists := True, wellKnownDir_exists := True\<rparr>)
              (Interactive [''example.com'', ''n'', ''n'', ''n'']))))
       (didDocument (result
         (run (example_disk\<lparr>outputDir_exists := True, wellKnownDir_exists := True\<rparr>)
              (Interactive [''example.com'', ''n'', ''n'', ''n'']))))"
proof -
  let ?c1 = "Docker None (Some '' example.com '')"
  let ?d2 = "example_disk\<lparr>outputDir_exists := True, wellKnownDir_exists := True\<rparr>"
  let ?c2 = "Interactive [''example.com'', ''n'', ''n'', ''n'']"
  have r1: "run example_disk ?c1 = Done (result (run example_disk ?c1))"
    using example_runs_for_C9(1) by simp
  have r2: "run ?d2 ?c2 = Done (result (run ?d2 ?c2))"
    using example_runs_for_C9(2) by simp
  have did: "didId (result (run example_disk ?c1)) = didId (result (run ?d2 ?c2))"
    using example_runs_for_C9(3,4) by simp
  have x5u: "x5uURL (result (run example_disk ?c1)) = x5uURL (result (run ?d2 ?c2))"
    using example_runs_for_C9(5,6) by simp
  have key: "public_key example_disk = public_key ?d2"
    by simp
  have opts: "options_given ?c1 = options_given ?c2"
    by (simp add: options_typed_def toLowerCase_n)
  from C9_deterministic [OF r1 r2 did key x5u opts] show ?thesis
    by blast
qed

section \<open>Docker mode\<close>

text \<open>
  C10. Every completed Docker-mode run produces the minimal document: the identifier is
  \<open>did:web:\<close> followed by the trimmed domain, with no path segment appended; the certificate
  URL is under \<open>.well-known\<close>, and is the \<open>x5u\<close> of the key object; the document has no
  \<open>authentication\<close> and no \<open>service\<close> property, and the JSON written has exactly the
  properties \<open>@context\<close>, \<open>id\<close>, \<open>verificationMethod\<close> and \<open>assertionMethod\<close>.
\<close>

theorem C10_docker_minimal:
  assumes "createDIDDocument_docker argv2 env_DOMAIN dsk = Done r"
  shows "\<exists>domain vm.
           argv2_or_env argv2 env_DOMAIN = Some domain \<and> trim domain \<noteq> '''' \<and>
           didId r = ''did:web:'' @ trim domain \<and>
           x5uURL r = ''https://'' @ trim domain @ ''/.well-known/x509CertificateChain.pem'' \<and>
           authentication (didDocument r) = None \<and>
           service (didDocument r) = None \<and>
           document_json (heap r) (didDocument r) =
             JObj [(''@context'', JArr [JStr ''https://www.w3.org/ns/did/v1'']),
                   (''id'', JStr (''did:web:'' @ trim domain)),
                   (''verificationMethod'', JArr [vm]),
                   (''assertionMethod'', JArr [JStr (''did:web:'' @ trim domain @ ''#JWK2020-RSA'')])] \<and>
           (\<forall>ps. public_key dsk = KeyJson (JObj ps) \<longrightarrow>
              heap r = [Object (assign ''x5u'' (JStr (x5uURL r)) ps)])"
proof -
  from assms obtain j domain where
    dom: "argv2_or_env argv2 env_DOMAIN = Some domain" "trim domain \<noteq> ''''" and
    key: "public_key dsk = KeyJson j" and
    did: "didId r = ''did:web:'' @ trim domain" and
    x5u: "x5uURL r = ''https://'' @ trim domain @ ''/.well-known/x509CertificateChain.pem''" and
    bd: "buildDocument (snd (JSON_parse [] j)) (fst (JSON_parse [] j)) (didId r) (x5uURL r)
           = Inr (heap r, didDocument r)"
    by (elim createDIDDocument_docker_DoneD)
  have doc: "didDocument r =
      \<lparr> doc_context = [''https://www.w3.org/ns/did/v1''],
        doc_id = didId r,
        verificationMethod =
          [\<lparr> vm_context = ''https://w3c-ccg.github.io/lds-jws2020/contexts/v1/'',
             vm_id = didId r @ ''#'' @ fragmentId,
             vm_type = ''JsonWebKey2020'',
             controller = didId r,
             publicKeyJwk = fst (JSON_parse [] j) \<rparr>],
        assertionMethod = [didId r @ ''#'' @ fragmentId],
        authentication = None,
        service = None \<rparr>"
    using bd unfolding buildDocument_def by (auto split: sum.splits)
  have json: "document_json (heap r) (didDocument r) =
      JObj [(''@context'', JArr [JStr ''https://www.w3.org/ns/did/v1'']),
            (''id'', JStr (''did:web:'' @ trim domain)),
            (''verificationMethod'', JArr [verification_method_json (heap r)
               (hd (verificationMethod (didDocument r)))]),
            (''assertionMethod'', JArr [JStr (''did:web:'' @ trim domain @ ''#JWK2020-RSA'')])]"
    by (subst (1 2) doc) (simp add: document_json_def did fragmentId_def)
  have hp: "heap r = [Object (assign ''x5u'' (JStr (x5uURL r)) ps)]"
    if "public_key dsk = KeyJson (JObj ps)" for ps
    using that key buildDocument_InrD(1) [OF bd] by auto
  have opt: "authentication (didDocument r) = None" "service (didDocument r) = None"
    using buildDocument_InrD(7,8) [OF bd] by simp_all
  show ?thesis
    using dom did x5u opt json hp by blast
qed

theorem C10_witness:
  "didId (result (createDIDDocument_docker None (Some '' example.com '') example_disk))
     = ''did:web:example.com'' \<and>
   x5uURL (result (createDIDDocument_docker None (Some '' example.com '') example_disk))
     = ''https://example.com/.well-known/x509CertificateChain.pem'' \<and>
   authentication (didDocument (result
     (createDIDDocument_docker None (Some '' example.com '') example_disk))) = None \<and>
   service (didDocument (result
     (createDIDDocument_docker None (Some '' example.com '') example_disk))) = None \<and>
   heap (result (createDIDDocument_docker None (Some '' example.com '') example_disk))
     = [Object [(''kty'', JStr ''RSA''), (''n'', JStr ''...''), (''e'', JStr ''AQAB''),
                (''x5u'', JStr ''https://example.com/.well-known/x509CertificateChain.pem'')]]"
proof -
  let ?r = "result (createDIDDocument_docker None (Some '' example.com '') example_disk)"
  have "createDIDDocument_docker None (Some '' example.com '') example_disk = Done ?r"
    using example_run_docker_env by simp
  from C10_docker_minimal [OF this] show ?thesis
    by (auto simp: argv2_or_env_def trim_spaces example_disk_def example_key_def)
qed

end
